theory Spec2Isabelle
  imports Main
begin

section \<open>The source text\<close>

text \<open>
  The repository holds one file, \<^verbatim>\<open>wrapper.h\<close>, and the file is text for the C
  preprocessor: a block comment, an empty line and twelve inclusion directives. The
  embedding is the text itself, byte for byte (454 bytes, the last line without a
  terminating newline), one literal per source line.
\<close>

definition wrapper_h :: string where
  "wrapper_h =
     ''/**\<newline>'' @
     '' * Header files re-exported from the MLIR C API for binding generation.\<newline>'' @
     '' */\<newline>'' @
     ''\<newline>'' @
     ''#include <mlir-c/Support.h>\<newline>'' @
     ''#include <mlir-c/IR.h>\<newline>'' @
     ''#include <mlir-c/Registration.h>\<newline>'' @
     ''#include <mlir-c/Transforms.h>\<newline>'' @
     ''#include <mlir-c/Pass.h>\<newline>'' @
     ''#include <mlir-c/IntegerSet.h>\<newline>'' @
     ''#include <mlir-c/ExecutionEngine.h>\<newline>'' @
     ''#include <mlir-c/Diagnostics.h>\<newline>'' @
     ''#include <mlir-c/Conversion.h>\<newline>'' @
     ''#include <mlir-c/BuiltinTypes.h>\<newline>'' @
     ''#include <mlir-c/BuiltinAttributes.h>\<newline>'' @
     ''#include <mlir-c/Dialect/LLVM.h>''"

text \<open>The source tree: every file under \<^verbatim>\<open>src/\<close>, as a name and its text.\<close>

definition repository :: "(string \<times> string) list" where
  "repository = [(''wrapper.h'', wrapper_h)]"

section \<open>How the preprocessor reads the text\<close>

text \<open>
  What the file means is what the C translation phases make of it, so the model follows
  them: comments are replaced by a gap, the result is cut into lines, and each line is
  either empty, a directive (first token \<^verbatim>\<open>#\<close>) or text of the translation unit.
  String literals, character constants, trigraphs and line splicing are left out of the
  scanner; \<open>wrapper_h_plain\<close> below shows that the file has none of the characters
  that start them, so on this file the scanner is exact.
\<close>

abbreviation newline :: char where
  "newline \<equiv> CHR 0x0A"

definition is_space :: "char \<Rightarrow> bool" where
  "is_space c = (c = CHR '' '' \<or> c = CHR 0x09 \<or> c = CHR 0x0B \<or> c = CHR 0x0C \<or> c = CHR 0x0D)"

definition is_ident :: "char \<Rightarrow> bool" where
  "is_ident c =
     (c \<in> set ''abcdefghijklmnopqrstuvwxyzABCDEFGHIJKLMNOPQRSTUVWXYZ0123456789_'')"

text \<open>
  Lines as an editor numbers them: a separator ends a line, and what follows the last
  separator is a line of its own, so a text without a final newline still has a last
  line. \<open>newline_count\<close> is the number \<^verbatim>\<open>wc -l\<close> reports.
\<close>

fun split_at :: "'a \<Rightarrow> 'a list \<Rightarrow> 'a list list" where
  "split_at sep [] = [[]]"
| "split_at sep (c # cs) =
     (if c = sep then [] # split_at sep cs
      else (case split_at sep cs of
              [] \<Rightarrow> [[c]]
            | l # ls \<Rightarrow> (c # l) # ls))"

definition split_lines :: "string \<Rightarrow> string list" where
  "split_lines text = split_at newline text"

definition line_count :: "string \<Rightarrow> nat" where
  "line_count text =
     (if text = [] then 0
      else if last text = newline then length (split_lines text) - 1
      else length (split_lines text))"

definition newline_count :: "string \<Rightarrow> nat" where
  "newline_count text = length (filter (\<lambda>c. c = newline) text)"

text \<open>
  Comment removal. A comment becomes one gap (the preprocessor's single space), and the
  newlines inside a block comment disappear with it: a directive may follow a comment
  that began lines earlier. The scanner returns the state it ends in, since ending
  inside a block comment is an error of the file.
\<close>

datatype lex_state = In_code | In_block | In_line

datatype piece = Text char | Gap

fun scan :: "lex_state \<Rightarrow> string \<Rightarrow> piece list \<times> lex_state" where
  "scan In_code (a # b # cs) =
     (if a = CHR ''/'' \<and> b = CHR ''*'' then apfst ((#) Gap) (scan In_block cs)
      else if a = CHR ''/'' \<and> b = CHR ''/'' then apfst ((#) Gap) (scan In_line cs)
      else apfst ((#) (Text a)) (scan In_code (b # cs)))"
| "scan In_code cs = (map Text cs, In_code)"
| "scan In_block (a # b # cs) =
     (if a = CHR ''*'' \<and> b = CHR ''/'' then scan In_code cs
      else scan In_block (b # cs))"
| "scan In_block cs = ([], In_block)"
| "scan In_line (a # cs) =
     (if a = newline then apfst ((#) (Text a)) (scan In_code cs)
      else scan In_line cs)"
| "scan In_line [] = ([], In_line)"

definition logical_lines :: "string \<Rightarrow> piece list list" where
  "logical_lines text = split_at (Text newline) (fst (scan In_code text))"

definition piece_char :: "piece \<Rightarrow> char" where
  "piece_char p = (case p of Text c \<Rightarrow> c | Gap \<Rightarrow> CHR '' '')"

text \<open>
  The kinds of line. An inclusion directive names its header between angle brackets
  (looked up on the include search path only) or between double quotes (looked up beside
  the including file first); anything else after \<^verbatim>\<open>#include\<close>, and anything after
  the closing delimiter, is malformed. A line that is not a directive and not empty is
  text of the translation unit: the only place a declaration or a definition can be.
\<close>

datatype include_form = Angle | Quoted

datatype line_kind =
    Blank
  | Comment
  | Include include_form string
  | Bad_include
  | Other_directive string string
  | Code string

definition delimited :: "include_form \<Rightarrow> char \<Rightarrow> string \<Rightarrow> line_kind" where
  "delimited f close cs =
     (let p = takeWhile (\<lambda>c. c \<noteq> close) cs;
          rest = dropWhile (\<lambda>c. c \<noteq> close) cs
      in if p = [] \<or> rest = [] then Bad_include
         else if list_all is_space (tl rest) then Include f p
         else Bad_include)"

definition parse_header_name :: "string \<Rightarrow> line_kind" where
  "parse_header_name r =
     (case r of
        [] \<Rightarrow> Bad_include
      | c # cs \<Rightarrow>
          if c = CHR ''<'' then delimited Angle (CHR ''>'') cs
          else if c = CHR 0x22 then delimited Quoted (CHR 0x22) cs
          else Bad_include)"

definition classify_line :: "string \<Rightarrow> line_kind" where
  "classify_line l =
     (case dropWhile is_space l of
        [] \<Rightarrow> Blank
      | c # cs \<Rightarrow>
          if c = CHR ''#'' then
            (let r = dropWhile is_space cs;
                 name = takeWhile is_ident r;
                 args = dropWhile is_space (dropWhile is_ident r)
             in if name = ''include'' then parse_header_name args
                else Other_directive name args)
          else Code (c # cs))"

definition kind_of :: "piece list \<Rightarrow> line_kind" where
  "kind_of ps =
     (if list_all is_space (map piece_char ps)
      then (if Gap \<in> set ps then Comment else Blank)
      else classify_line (map piece_char ps))"

definition line_kinds :: "string \<Rightarrow> line_kind list" where
  "line_kinds text = map kind_of (logical_lines text)"

fun includes_of :: "line_kind list \<Rightarrow> (include_form \<times> string) list" where
  "includes_of [] = []"
| "includes_of (Include f p # ks) = (f, p) # includes_of ks"
| "includes_of (k # ks) = includes_of ks"

definition include_directives :: "string \<Rightarrow> (include_form \<times> string) list" where
  "include_directives text = includes_of (line_kinds text)"

definition include_paths :: "string \<Rightarrow> string list" where
  "include_paths text = map snd (include_directives text)"

text \<open>What a file holds besides inclusions: its own text and its other directives.\<close>

fun code_of :: "line_kind list \<Rightarrow> string list" where
  "code_of [] = []"
| "code_of (Code t # ks) = t # code_of ks"
| "code_of (k # ks) = code_of ks"

fun directives_of :: "line_kind list \<Rightarrow> (string \<times> string) list" where
  "directives_of [] = []"
| "directives_of (Other_directive n a # ks) = (n, a) # directives_of ks"
| "directives_of (k # ks) = directives_of ks"

definition own_code :: "string \<Rightarrow> string list" where
  "own_code text = code_of (line_kinds text)"

definition other_directives :: "string \<Rightarrow> (string \<times> string) list" where
  "other_directives text = directives_of (line_kinds text)"

text \<open>
  Multiple inclusion. A file protects itself with an include guard (its first directive
  tests a macro, the next one defines it, the last one closes the conditional) or with
  \<^verbatim>\<open>#pragma once\<close>.
\<close>

fun significant :: "line_kind list \<Rightarrow> line_kind list" where
  "significant [] = []"
| "significant (Blank # ks) = significant ks"
| "significant (Comment # ks) = significant ks"
| "significant (k # ks) = k # significant ks"

fun guard_opens :: "line_kind list \<Rightarrow> bool" where
  "guard_opens (Other_directive n a # Other_directive n' a' # ks) =
     ((n = ''ifndef'' \<or> n = ''if'') \<and> n' = ''define'')"
| "guard_opens ks = False"

fun guard_closes :: "line_kind list \<Rightarrow> bool" where
  "guard_closes [] = False"
| "guard_closes (k # ks) =
     (case last (k # ks) of
        Other_directive n a \<Rightarrow> n = ''endif''
      | _ \<Rightarrow> False)"

definition has_include_guard :: "string \<Rightarrow> bool" where
  "has_include_guard text =
     (guard_opens (significant (line_kinds text)) \<and>
      guard_closes (significant (line_kinds text)))"

definition has_pragma_once :: "string \<Rightarrow> bool" where
  "has_pragma_once text =
     list_ex (\<lambda>(n, a). n = ''pragma'' \<and> takeWhile is_ident a = ''once'')
       (other_directives text)"

text \<open>
  Inclusion. The headers are not part of the repository: where they are found is the
  build's business, so the lookup is a parameter, and so is the depth to which the
  build lets inclusions nest. Expanding a file replaces each inclusion directive by the
  expansion of the header found for it, so a header that is found is read the way the
  file itself is, and whatever is wrong inside it fails the expansion too. Every error
  and every line of the result carries its origin: the file being expanded, or the
  header in which it arises.
\<close>

datatype origin = This_file | Header string

record search_env =
  beside :: "string \<rightharpoonup> string"
  search_path :: "string \<rightharpoonup> string"
  beside_header :: "string \<Rightarrow> string \<rightharpoonup> string"

definition resolve :: "search_env \<Rightarrow> include_form \<Rightarrow> string \<Rightarrow> string option" where
  "resolve env f p =
     (case f of
        Angle \<Rightarrow> search_path env p
      | Quoted \<Rightarrow> (case beside env p of
                     None \<Rightarrow> search_path env p
                   | Some body \<Rightarrow> Some body))"

datatype pp_error =
    Unterminated_comment origin
  | Malformed_include origin
  | Error_directive origin string
  | Header_not_found origin string
  | Nesting_too_deep origin string

datatype chunk = Text_line origin string | Kept_directive origin string string

fun error_origin :: "pp_error \<Rightarrow> origin" where
  "error_origin (Unterminated_comment og) = og"
| "error_origin (Malformed_include og) = og"
| "error_origin (Error_directive og a) = og"
| "error_origin (Header_not_found og p) = og"
| "error_origin (Nesting_too_deep og p) = og"

fun chunk_origin :: "chunk \<Rightarrow> origin" where
  "chunk_origin (Text_line og t) = og"
| "chunk_origin (Kept_directive og n a) = og"

fun is_header :: "origin \<Rightarrow> bool" where
  "is_header This_file = False"
| "is_header (Header h) = True"

text \<open>
  \<open>expand d env og ks\<close> expands the lines \<open>ks\<close> of the text of origin \<open>og\<close>, where
  \<open>d\<close> more levels of inclusion are allowed. A header included from another header is
  looked up beside that header when its name is quoted. Directives other than
  \<^verbatim>\<open>#include\<close> and \<^verbatim>\<open>#error\<close> are kept as they are: macros and conditionals are
  not interpreted.
\<close>

fun expand :: "nat \<Rightarrow> search_env \<Rightarrow> origin \<Rightarrow> line_kind list \<Rightarrow> pp_error + chunk list" where
  "expand d env og [] = Inr []"
| "expand 0 env og (Include f p # ks) = Inl (Nesting_too_deep og p)"
| "expand (Suc d) env og (Include f p # ks) =
     (case resolve env f p of
        None \<Rightarrow> Inl (Header_not_found og p)
      | Some body \<Rightarrow>
          if snd (scan In_code body) = In_block then Inl (Unterminated_comment (Header p))
          else (case expand d (env\<lparr>beside := beside_header env p\<rparr>) (Header p)
                       (line_kinds body) of
                  Inl e \<Rightarrow> Inl e
                | Inr inner \<Rightarrow> map_sum id ((@) inner) (expand (Suc d) env og ks)))"
| "expand d env og (Bad_include # ks) = Inl (Malformed_include og)"
| "expand d env og (Other_directive n a # ks) =
     (if n = ''error'' then Inl (Error_directive og a)
      else map_sum id ((#) (Kept_directive og n a)) (expand d env og ks))"
| "expand d env og (Code t # ks) = map_sum id ((#) (Text_line og t)) (expand d env og ks)"
| "expand d env og (k # ks) = expand d env og ks"

definition preprocess :: "nat \<Rightarrow> search_env \<Rightarrow> string \<Rightarrow> pp_error + chunk list" where
  "preprocess d env text =
     (if snd (scan In_code text) = In_block then Inl (Unterminated_comment This_file)
      else expand d env This_file (line_kinds text))"

definition own_chunks :: "chunk list \<Rightarrow> chunk list" where
  "own_chunks out = filter (\<lambda>c. chunk_origin c = This_file) out"

text \<open>
  The faults of a file's own text: a comment it leaves open, an inclusion directive it
  writes badly, an \<^verbatim>\<open>#error\<close> it raises. A header that cannot be found, and the
  nesting limit, are the build's.
\<close>

fun own_fault :: "pp_error \<Rightarrow> bool" where
  "own_fault (Unterminated_comment og) = (og = This_file)"
| "own_fault (Malformed_include og) = (og = This_file)"
| "own_fault (Error_directive og a) = (og = This_file)"
| "own_fault (Header_not_found og p) = False"
| "own_fault (Nesting_too_deep og p) = False"

text \<open>A header that is found and expands without error, with \<open>d\<close> levels left for it.\<close>

definition header_expands :: "nat \<Rightarrow> search_env \<Rightarrow> include_form \<Rightarrow> string \<Rightarrow> bool" where
  "header_expands d env f p =
     (case resolve env f p of
        None \<Rightarrow> False
      | Some body \<Rightarrow>
          snd (scan In_code body) \<noteq> In_block \<and>
          (case expand d (env\<lparr>beside := beside_header env p\<rparr>) (Header p)
                  (line_kinds body) of
             Inl e \<Rightarrow> False
           | Inr inner \<Rightarrow> True))"

text \<open>
  The components of a source tree: every piece of translation-unit text and every
  directive other than an inclusion that some file of the tree holds, with the file's
  name. Whatever has a responsibility or a state of its own is among them.
\<close>

definition components :: "(string \<times> string) list \<Rightarrow> (string \<times> string) list" where
  "components repo =
     concat (map (\<lambda>(name, text).
       map (Pair name) (own_code text @ map fst (other_directives text))) repo)"

definition is_inclusion :: "line_kind \<Rightarrow> bool" where
  "is_inclusion k = (case k of Include f p \<Rightarrow> True | _ \<Rightarrow> False)"

definition is_noncode :: "line_kind \<Rightarrow> bool" where
  "is_noncode k = (k = Blank \<or> k = Comment)"

section \<open>Evaluating the file\<close>

lemma wrapper_h_length: "length wrapper_h = 454"
  by (simp add: wrapper_h_def)

lemma wrapper_h_plain:
  "filter (\<lambda>c. c = CHR 0x22 \<or> c = CHR 0x27 \<or> c = CHR 0x5C \<or> c = CHR ''?'') wrapper_h = []"
  by (simp add: wrapper_h_def)

lemma wrapper_h_kinds:
  "line_kinds wrapper_h =
     [Comment, Blank,
      Include Angle ''mlir-c/Support.h'',
      Include Angle ''mlir-c/IR.h'',
      Include Angle ''mlir-c/Registration.h'',
      Include Angle ''mlir-c/Transforms.h'',
      Include Angle ''mlir-c/Pass.h'',
      Include Angle ''mlir-c/IntegerSet.h'',
      Include Angle ''mlir-c/ExecutionEngine.h'',
      Include Angle ''mlir-c/Diagnostics.h'',
      Include Angle ''mlir-c/Conversion.h'',
      Include Angle ''mlir-c/BuiltinTypes.h'',
      Include Angle ''mlir-c/BuiltinAttributes.h'',
      Include Angle ''mlir-c/Dialect/LLVM.h'']"
  by code_simp

lemma wrapper_h_includes:
  "include_directives wrapper_h =
     [(Angle, ''mlir-c/Support.h''),
      (Angle, ''mlir-c/IR.h''),
      (Angle, ''mlir-c/Registration.h''),
      (Angle, ''mlir-c/Transforms.h''),
      (Angle, ''mlir-c/Pass.h''),
      (Angle, ''mlir-c/IntegerSet.h''),
      (Angle, ''mlir-c/ExecutionEngine.h''),
      (Angle, ''mlir-c/Diagnostics.h''),
      (Angle, ''mlir-c/Conversion.h''),
      (Angle, ''mlir-c/BuiltinTypes.h''),
      (Angle, ''mlir-c/BuiltinAttributes.h''),
      (Angle, ''mlir-c/Dialect/LLVM.h'')]"
  by (simp add: include_directives_def wrapper_h_kinds)

lemma wrapper_h_comments_closed: "snd (scan In_code wrapper_h) = In_code"
  by code_simp

lemma wrapper_h_own_code: "own_code wrapper_h = []"
  by (simp add: own_code_def wrapper_h_kinds)

lemma wrapper_h_other_directives: "other_directives wrapper_h = []"
  by (simp add: other_directives_def wrapper_h_kinds)

lemma wrapper_h_newlines: "newline_count wrapper_h = 15"
  by code_simp

lemma wrapper_h_lines: "line_count wrapper_h = 16"
  by code_simp

lemma wrapper_h_no_bad_include: "Bad_include \<notin> set (line_kinds wrapper_h)"
  by (simp add: wrapper_h_kinds)

lemma wrapper_h_all_angle: "list_all (\<lambda>(f, p). f = Angle) (include_directives wrapper_h)"
  by (simp add: wrapper_h_includes)

section \<open>Expansion in general\<close>

lemma expand_error_origin:
  "expand d env og ks = Inl e \<Longrightarrow> error_origin e = og \<or> is_header (error_origin e)"
proof (induction d env og ks arbitrary: e rule: expand.induct)
  case (3 d env og f p ks)
  show ?case
  proof (cases "resolve env f p")
    case None
    with "3.prems" show ?thesis by auto
  next
    case (Some body)
    show ?thesis
    proof (cases "snd (scan In_code body) = In_block")
      case True
      with Some "3.prems" show ?thesis by auto
    next
      case False
      show ?thesis
      proof (cases "expand d (env\<lparr>beside := beside_header env p\<rparr>) (Header p) (line_kinds body)")
        case (Inl e')
        with Some False "3.prems" have "e = e'" by simp
        with "3.IH"(1) [OF Some False Inl] show ?thesis by auto
      next
        case (Inr inner)
        with Some False "3.prems" have "expand (Suc d) env og ks = Inl e"
          by (cases "expand (Suc d) env og ks") auto
        with "3.IH"(2) [OF Some False Inr] show ?thesis by simp
      qed
    qed
  qed
next
  case (5 d env og n a ks)
  then show ?case
    by (cases "expand d env og ks") (auto split: if_splits)
next
  case (6 d env og t ks)
  then show ?case by (cases "expand d env og ks") auto
qed auto

lemma expand_error:
  "expand d env This_file ks = Inl e \<Longrightarrow>
     (e = Malformed_include This_file \<and> Bad_include \<in> set ks) \<or>
     (\<exists>a. e = Error_directive This_file a \<and> (''error'', a) \<in> set (directives_of ks)) \<or>
     (\<exists>f p. e = Header_not_found This_file p \<and> (f, p) \<in> set (includes_of ks) \<and>
        resolve env f p = None) \<or>
     (\<exists>f p. e = Nesting_too_deep This_file p \<and> (f, p) \<in> set (includes_of ks) \<and> d = 0) \<or>
     is_header (error_origin e)"
proof (induction ks)
  case Nil
  then show ?case by simp
next
  case (Cons k ks)
  show ?case
  proof (cases k)
    case (Include f p)
    show ?thesis
    proof (cases d)
      case 0
      with Include Cons.prems show ?thesis by auto
    next
      case (Suc d')
      show ?thesis
      proof (cases "resolve env f p")
        case None
        with Include Suc Cons.prems show ?thesis by auto
      next
        case (Some body)
        show ?thesis
        proof (cases "snd (scan In_code body) = In_block")
          case True
          with Include Suc Some Cons.prems show ?thesis by auto
        next
          case False
          show ?thesis
          proof (cases "expand d' (env\<lparr>beside := beside_header env p\<rparr>) (Header p)
                          (line_kinds body)")
            case (Inl e')
            with Include Suc Some False Cons.prems have "e = e'" by simp
            with expand_error_origin [OF Inl] show ?thesis by auto
          next
            case (Inr inner)
            with Include Suc Some False Cons.prems have "expand d env This_file ks = Inl e"
              by (cases "expand d env This_file ks") auto
            from Cons.IH [OF this] Include show ?thesis by auto
          qed
        qed
      qed
    qed
  next
    case (Other_directive n a)
    show ?thesis
    proof (cases "n = ''error''")
      case True
      with Other_directive Cons.prems show ?thesis by auto
    next
      case False
      with Other_directive Cons.prems have "expand d env This_file ks = Inl e"
        by (cases "expand d env This_file ks") auto
      from Cons.IH [OF this] Other_directive show ?thesis by auto
    qed
  next
    case (Code t)
    with Cons.prems have "expand d env This_file ks = Inl e"
      by (cases "expand d env This_file ks") auto
    from Cons.IH [OF this] Code show ?thesis by auto
  next
    case Blank
    with Cons show ?thesis by auto
  next
    case Comment
    with Cons show ?thesis by auto
  next
    case Bad_include
    with Cons show ?thesis by auto
  qed
qed

lemma expand_chunk_origin:
  "expand d env og ks = Inr out \<Longrightarrow> c \<in> set out \<Longrightarrow>
     (chunk_origin c = og \<and> (code_of ks \<noteq> [] \<or> directives_of ks \<noteq> [])) \<or>
     is_header (chunk_origin c)"
proof (induction d env og ks arbitrary: out rule: expand.induct)
  case (3 d env og f p ks)
  show ?case
  proof (cases "resolve env f p")
    case None
    with "3.prems" show ?thesis by simp
  next
    case (Some body)
    show ?thesis
    proof (cases "snd (scan In_code body) = In_block")
      case True
      with Some "3.prems" show ?thesis by auto
    next
      case False
      show ?thesis
      proof (cases "expand d (env\<lparr>beside := beside_header env p\<rparr>) (Header p) (line_kinds body)")
        case (Inl e')
        with Some False "3.prems" show ?thesis by simp
      next
        case (Inr inner)
        with Some False "3.prems" obtain rest
          where rest: "expand (Suc d) env og ks = Inr rest" and out: "out = inner @ rest"
          by (cases "expand (Suc d) env og ks") auto
        from out "3.prems"(2) consider "c \<in> set inner" | "c \<in> set rest" by auto
        then show ?thesis
        proof cases
          case 1
          from "3.IH"(1) [OF Some False Inr 1] show ?thesis by auto
        next
          case 2
          from "3.IH"(2) [OF Some False Inr rest 2] show ?thesis by simp
        qed
      qed
    qed
  qed
next
  case (5 d env og n a ks)
  then show ?case
    by (cases "expand d env og ks") (auto split: if_splits)
next
  case (6 d env og t ks)
  then show ?case by (cases "expand d env og ks") auto
qed auto

lemma expand_own:
  assumes "expand d env This_file ks = Inr out" "code_of ks = []" "directives_of ks = []"
  shows "own_chunks out = []"
proof -
  have "chunk_origin c \<noteq> This_file" if "c \<in> set out" for c
    using expand_chunk_origin [OF assms(1) that] assms(2,3)
    by (cases "chunk_origin c") auto
  then show ?thesis
    by (simp add: own_chunks_def filter_empty_conv)
qed

lemma expand_returns:
  "Bad_include \<notin> set ks \<Longrightarrow> directives_of ks = [] \<Longrightarrow>
   list_all (\<lambda>(f, p). header_expands d env f p) (includes_of ks) \<Longrightarrow>
     \<exists>out. expand (Suc d) env og ks = Inr out"
proof (induction ks)
  case Nil
  then show ?case by simp
next
  case (Cons k ks)
  show ?case
  proof (cases k)
    case (Include f p)
    with Cons obtain rest where rest: "expand (Suc d) env og ks = Inr rest"
      by auto
    from Include Cons.prems have "header_expands d env f p" by simp
    with Include rest show ?thesis
      by (auto simp: header_expands_def split: option.splits sum.splits)
  next
    case (Code t)
    with Cons obtain rest where "expand (Suc d) env og ks = Inr rest" by auto
    with Code show ?thesis by simp
  qed (use Cons in auto)
qed

lemma own_fault_origin: "own_fault e \<Longrightarrow> error_origin e = This_file"
  by (cases e) auto

section \<open>The headers referenced\<close>

text \<open>
  C1. The header paths named by the inclusion directives of \<^verbatim>\<open>wrapper.h\<close> are, as a
  set, exactly the twelve paths of the specification's list of external interfaces:
  each of the twelve is named by a directive and no directive names anything else.
\<close>

theorem wrapper_h_references_exactly_the_twelve:
  "set (include_paths wrapper_h) =
     {''mlir-c/Support.h'', ''mlir-c/IR.h'', ''mlir-c/Registration.h'',
      ''mlir-c/Transforms.h'', ''mlir-c/Pass.h'', ''mlir-c/IntegerSet.h'',
      ''mlir-c/ExecutionEngine.h'', ''mlir-c/Diagnostics.h'', ''mlir-c/Conversion.h'',
      ''mlir-c/BuiltinTypes.h'', ''mlir-c/BuiltinAttributes.h'', ''mlir-c/Dialect/LLVM.h''}"
  by (simp add: include_paths_def wrapper_h_includes)

text \<open>
  C6. The inclusion directives name the twelve paths in the order of the specification's
  list: \<^verbatim>\<open>Support.h\<close> first, \<^verbatim>\<open>Dialect/LLVM.h\<close> last.
\<close>

theorem wrapper_h_references_in_listed_order:
  "include_paths wrapper_h =
     [''mlir-c/Support.h'', ''mlir-c/IR.h'', ''mlir-c/Registration.h'',
      ''mlir-c/Transforms.h'', ''mlir-c/Pass.h'', ''mlir-c/IntegerSet.h'',
      ''mlir-c/ExecutionEngine.h'', ''mlir-c/Diagnostics.h'', ''mlir-c/Conversion.h'',
      ''mlir-c/BuiltinTypes.h'', ''mlir-c/BuiltinAttributes.h'', ''mlir-c/Dialect/LLVM.h'']"
  by (simp add: include_paths_def wrapper_h_includes)

text \<open>
  C8. The twelve paths are pairwise distinct: no header is named by two directives.
\<close>

theorem wrapper_h_paths_distinct:
  "length (include_paths wrapper_h) = 12 \<and> distinct (include_paths wrapper_h)"
  by (simp add: include_paths_def wrapper_h_includes)

text \<open>
  C7. Each of the twelve directives is of the angle-bracket form and its path begins
  with \<^verbatim>\<open>mlir-c/\<close>; being of that form, each is looked up on the include search path,
  whatever lies beside the including file.
\<close>

theorem wrapper_h_includes_angle_mlir_c:
  "length (include_directives wrapper_h) = 12 \<and>
   list_all (\<lambda>(f, p). f = Angle \<and> take 7 p = ''mlir-c/'') (include_directives wrapper_h) \<and>
   map (\<lambda>(f, p). resolve env f p) (include_directives wrapper_h) =
     map (search_path env) (include_paths wrapper_h)"
  by (simp add: include_paths_def wrapper_h_includes resolve_def)

section \<open>The content of the file\<close>

text \<open>
  C2, as the specification states it: the file is 15 lines long and its whole content
  is inclusion directives, with no other kind of line. It is not so, whether the 15
  counts lines or newline characters: the file opens with a comment and an empty line.
\<close>

theorem wrapper_h_not_only_includes:
  "\<not> ((line_count wrapper_h = 15 \<or> newline_count wrapper_h = 15) \<and>
      list_all is_inclusion (line_kinds wrapper_h))"
  by (simp add: wrapper_h_kinds is_inclusion_def)

text \<open>
  C2, amended. The repository is the one header file. Its text has 15 lines ended by a
  newline and a 16th line that is not. Lines 1 to 3 are a block comment, line 4 is
  empty, and each of lines 5 to 16 is an inclusion directive: after comment removal the
  file is a comment gap, an empty line and twelve inclusion directives, and nothing
  else.
\<close>

theorem wrapper_h_comment_blank_twelve_includes:
  "map fst repository = [''wrapper.h''] \<and>
   map snd repository = [wrapper_h] \<and>
   newline_count wrapper_h = 15 \<and>
   line_count wrapper_h = 16 \<and>
   take 4 (split_lines wrapper_h) =
     [''/**'',
      '' * Header files re-exported from the MLIR C API for binding generation.'',
      '' */'',
      []] \<and>
   map classify_line (drop 4 (split_lines wrapper_h)) =
     map (Include Angle) (include_paths wrapper_h) \<and>
   line_kinds wrapper_h =
     Comment # Blank # map (Include Angle) (include_paths wrapper_h) \<and>
   length (include_paths wrapper_h) = 12"
proof -
  have "take 4 (split_lines wrapper_h) =
     [''/**'',
      '' * Header files re-exported from the MLIR C API for binding generation.'',
      '' */'',
      []]"
    by code_simp
  moreover have "map classify_line (drop 4 (split_lines wrapper_h)) =
     map (Include Angle) (include_paths wrapper_h)"
    by code_simp
  moreover have "line_kinds wrapper_h =
     Comment # Blank # map (Include Angle) (include_paths wrapper_h)"
    by (simp add: include_paths_def wrapper_h_includes wrapper_h_kinds)
  moreover have "length (include_paths wrapper_h) = 12"
    by (simp add: include_paths_def wrapper_h_includes)
  ultimately show ?thesis
    by (simp add: repository_def wrapper_h_newlines wrapper_h_lines)
qed

text \<open>
  C3. The file declares nothing of its own: every line of it is an inclusion directive,
  a comment or empty; it holds no translation-unit text (where a function, a type, a
  class or a statement would have to be) and no other directive (no macro, no
  conditional).
\<close>

theorem wrapper_h_declares_nothing:
  "list_all (\<lambda>k. is_inclusion k \<or> is_noncode k) (line_kinds wrapper_h) \<and>
   own_code wrapper_h = [] \<and>
   other_directives wrapper_h = []"
  by (simp add: wrapper_h_kinds own_code_def other_directives_def is_inclusion_def
      is_noncode_def)

text \<open>
  C5. The source tree is one file, \<^verbatim>\<open>wrapper.h\<close>, and it has no components: no file
  of it holds text or a directive other than inclusions.
\<close>

theorem repository_one_file_no_components:
  "length repository = 1 \<and>
   map fst repository = [''wrapper.h''] \<and>
   components repository = []"
  by (simp add: repository_def components_def wrapper_h_own_code
      wrapper_h_other_directives)

section \<open>Failure and repeated inclusion\<close>

text \<open>
  C4. The file defines no operation, so none can fail. Whatever the build provides and
  however deep it lets inclusions nest, an expansion of the file that fails never fails
  by a fault of the file's own text (a comment left open, a malformed directive, an
  \<^verbatim>\<open>#error\<close>): either the build does not provide one of the twelve headers on its
  search path, or it allows no inclusion at all, or the error arises inside a header.
  An expansion that returns holds nothing of the file's own, and the expansion does
  return when each of the twelve headers is found and expands.
\<close>

theorem wrapper_h_never_at_fault:
  "own_code wrapper_h = [] \<and>
   (preprocess d env wrapper_h = Inl e \<longrightarrow>
      \<not> own_fault e \<and>
      ((\<exists>p. e = Header_not_found This_file p \<and> p \<in> set (include_paths wrapper_h) \<and>
          search_path env p = None) \<or>
       (\<exists>p. e = Nesting_too_deep This_file p \<and> p \<in> set (include_paths wrapper_h) \<and>
          d = 0) \<or>
       is_header (error_origin e))) \<and>
   (preprocess d env wrapper_h = Inr out \<longrightarrow> own_chunks out = []) \<and>
   (list_all (\<lambda>(f, p). header_expands d env f p) (include_directives wrapper_h) \<longrightarrow>
      (\<exists>out'. preprocess (Suc d) env wrapper_h = Inr out'))"
proof (intro conjI impI)
  show "own_code wrapper_h = []"
    by (rule wrapper_h_own_code)
next
  assume "preprocess d env wrapper_h = Inl e"
  then have fails: "expand d env This_file (line_kinds wrapper_h) = Inl e"
    by (simp add: preprocess_def wrapper_h_comments_closed)
  have no_error: "(''error'', a) \<notin> set (directives_of (line_kinds wrapper_h))" for a
    using wrapper_h_other_directives by (simp add: other_directives_def)
  from expand_error [OF fails] wrapper_h_no_bad_include no_error
  consider
      (missing) f p where "e = Header_not_found This_file p"
        "(f, p) \<in> set (include_directives wrapper_h)" "resolve env f p = None"
    | (deep) f p where "e = Nesting_too_deep This_file p"
        "(f, p) \<in> set (include_directives wrapper_h)" "d = 0"
    | (inside) "is_header (error_origin e)"
    unfolding include_directives_def by blast
  then show "(\<exists>p. e = Header_not_found This_file p \<and> p \<in> set (include_paths wrapper_h) \<and>
          search_path env p = None) \<or>
       (\<exists>p. e = Nesting_too_deep This_file p \<and> p \<in> set (include_paths wrapper_h) \<and>
          d = 0) \<or>
       is_header (error_origin e)"
  proof cases
    case missing
    from missing(2) wrapper_h_all_angle have "f = Angle"
      unfolding list_all_iff by blast
    with missing(3) have "search_path env p = None"
      by (simp add: resolve_def)
    moreover from missing(2) have "p \<in> set (include_paths wrapper_h)"
      unfolding include_paths_def by force
    ultimately show ?thesis
      using missing(1) by blast
  next
    case deep
    from deep(2) have "p \<in> set (include_paths wrapper_h)"
      unfolding include_paths_def by force
    with deep(1,3) show ?thesis by blast
  next
    case inside
    then show ?thesis by blast
  qed
  then show "\<not> own_fault e"
    using own_fault_origin [of e] by auto
next
  assume "preprocess d env wrapper_h = Inr out"
  then have "expand d env This_file (line_kinds wrapper_h) = Inr out"
    by (simp add: preprocess_def wrapper_h_comments_closed)
  from expand_own [OF this] wrapper_h_own_code wrapper_h_other_directives
  show "own_chunks out = []"
    by (simp add: own_code_def other_directives_def)
next
  assume "list_all (\<lambda>(f, p). header_expands d env f p) (include_directives wrapper_h)"
  then have "\<exists>out'. expand (Suc d) env This_file (line_kinds wrapper_h) = Inr out'"
    using expand_returns [OF wrapper_h_no_bad_include, of d env This_file]
      wrapper_h_other_directives
    by (simp add: include_directives_def other_directives_def)
  then show "\<exists>out'. preprocess (Suc d) env wrapper_h = Inr out'"
    by (simp add: preprocess_def wrapper_h_comments_closed)
qed

theorem wrapper_h_never_at_fault_witness:
  "preprocess 1
       \<lparr>beside = Map.empty, search_path = Map.empty, beside_header = (\<lambda>h. Map.empty)\<rparr>
       wrapper_h =
     Inl (Header_not_found This_file ''mlir-c/Support.h'') \<and>
   \<not> own_fault (Header_not_found This_file ''mlir-c/Support.h'') \<and>
   preprocess 2
       \<lparr>beside = Map.empty,
        search_path = (\<lambda>p. if p = ''stdint.h'' then None else Some ''#include <stdint.h>''),
        beside_header = (\<lambda>h. Map.empty)\<rparr>
       wrapper_h =
     Inl (Header_not_found (Header ''mlir-c/Support.h'') ''stdint.h'') \<and>
   \<not> own_fault (Header_not_found (Header ''mlir-c/Support.h'') ''stdint.h'') \<and>
   list_all
     (\<lambda>(f, p). header_expands 0
        \<lparr>beside = Map.empty, search_path = (\<lambda>p. Some ''int x;''),
         beside_header = (\<lambda>h. Map.empty)\<rparr> f p)
     (include_directives wrapper_h) \<and>
   (\<exists>out. preprocess 1
       \<lparr>beside = Map.empty, search_path = (\<lambda>p. Some ''int x;''),
        beside_header = (\<lambda>h. Map.empty)\<rparr>
       wrapper_h = Inr out \<and> own_chunks out = [])"
proof -
  let ?none = "\<lparr>beside = Map.empty, search_path = Map.empty,
    beside_header = (\<lambda>h. Map.empty)\<rparr>"
  let ?nested = "\<lparr>beside = Map.empty,
    search_path = (\<lambda>p. if p = ''stdint.h'' then None else Some ''#include <stdint.h>''),
    beside_header = (\<lambda>h. Map.empty)\<rparr>"
  let ?plain = "\<lparr>beside = Map.empty, search_path = (\<lambda>p. Some ''int x;''),
    beside_header = (\<lambda>h. Map.empty)\<rparr>"
  have missing: "preprocess 1 ?none wrapper_h =
      Inl (Header_not_found This_file ''mlir-c/Support.h'')"
    by code_simp
  have inside: "preprocess 2 ?nested wrapper_h =
      Inl (Header_not_found (Header ''mlir-c/Support.h'') ''stdint.h'')"
    by code_simp
  have there: "list_all (\<lambda>(f, p). header_expands 0 ?plain f p) (include_directives wrapper_h)"
    by code_simp
  from missing wrapper_h_never_at_fault [of 1 ?none "Header_not_found This_file ''mlir-c/Support.h''"]
  have a: "\<not> own_fault (Header_not_found This_file ''mlir-c/Support.h'')"
    by blast
  from inside wrapper_h_never_at_fault
    [of 2 ?nested "Header_not_found (Header ''mlir-c/Support.h'') ''stdint.h''"]
  have b: "\<not> own_fault (Header_not_found (Header ''mlir-c/Support.h'') ''stdint.h'')"
    by blast
  from there wrapper_h_never_at_fault [of 0 ?plain]
  obtain out where out: "preprocess (Suc 0) ?plain wrapper_h = Inr out"
    by blast
  with wrapper_h_never_at_fault [of "Suc 0" ?plain _ out]
  have "own_chunks out = []"
    by blast
  with out have c: "\<exists>out. preprocess 1 ?plain wrapper_h = Inr out \<and> own_chunks out = []"
    by auto
  from missing a inside b there c show ?thesis
    by blast
qed

text \<open>
  C9. The file has no include guard and no \<^verbatim>\<open>#pragma once\<close>. Including it twice
  therefore issues each of the twelve inclusion directives twice: only the guards of the
  twelve headers stand against a repeated inclusion.
\<close>

theorem wrapper_h_unguarded:
  "\<not> has_include_guard wrapper_h \<and>
   \<not> has_pragma_once wrapper_h \<and>
   include_paths (wrapper_h @ newline # wrapper_h) =
     include_paths wrapper_h @ include_paths wrapper_h"
proof -
  have "include_paths (wrapper_h @ newline # wrapper_h) =
     include_paths wrapper_h @ include_paths wrapper_h"
    by code_simp
  moreover have "\<not> has_include_guard wrapper_h"
    by (simp add: has_include_guard_def wrapper_h_kinds)
  moreover have "\<not> has_pragma_once wrapper_h"
    by (simp add: has_pragma_once_def wrapper_h_other_directives)
  ultimately show ?thesis
    by blast
qed

end
